theory Spec2Isabelle
  imports Complex_Main
begin

section \<open>Data model\<close>

text \<open>
  Modelled from the spec: the ORM models \<^verbatim>\<open>models/User\<close>, \<^verbatim>\<open>models/PendingUsers\<close> and
  \<^verbatim>\<open>models/Metric\<close> are required by the controllers but are not among the sources. Their
  columns are those of the spec's data model: a User has id, username, name, email
  (unique), passwordHash, phone, role, otp (nullable) and otpExpires (nullable); a
  PendingUser is keyed by email; a Metric is keyed by date. A table is the list of its
  rows in insertion order. Instants are milliseconds since the epoch, a Metric's date is
  the number of its UTC day. A column that the controllers may leave undefined is optional.
\<close>

record user =
  u_id :: nat
  u_username :: string
  u_name :: "string option"
  u_email :: string
  u_passwordHash :: string
  u_phone :: "string option"
  u_role :: string
  u_otp :: "string option"
  u_otpExpires :: "int option"

record pending_user =
  p_email :: string
  p_username :: string
  p_name :: "string option"
  p_passwordHash :: string
  p_phone :: "string option"
  p_role :: string
  p_otp :: string
  p_expires :: int

record metric =
  m_date :: int
  m_totalUsers :: int
  m_totalSales :: int
  m_totalConversions :: int

record mail =
  mail_to :: string
  mail_from :: "string option"
  mail_subject :: string
  mail_text :: string

text \<open>
  The world a handler runs in: the three tables, the next value of the User table's
  auto-incremented id, and the mails handed to the SMTP transport so far.
\<close>

record world =
  users :: "user list"
  pendings :: "pending_user list"
  metrics :: "metric list"
  next_id :: nat
  outbox :: "mail list"

section \<open>Environment of one handler call\<close>

text \<open>
  Every awaited call of a handler goes to the store, to bcrypt, to the token library or to
  the mail transport, and may throw; the handler's outer \<^verbatim>\<open>catch\<close> then answers 500. Which
  calls throw during one invocation is an input of the model, as are the clock, the draw
  of \<^verbatim>\<open>Math.random()\<close>, the library functions and the process environment. A call that
  throws has no effect.
\<close>

datatype call =
    User_findOne_call
  | User_create_call
  | User_save_call
  | PendingUser_findByPk_call
  | PendingUser_upsert_call
  | PendingUser_save_call
  | PendingUser_destroy_call
  | Metric_findOrCreate_call
  | Metric_save_call
  | Metric_findAll_call
  | Bcrypt_hash_call
  | Bcrypt_compare_call
  | Jwt_sign_call
  | SendMail_call

record payload =
  pl_id :: nat
  pl_username :: string
  pl_role :: string
  pl_email :: string

text \<open>
  \<open>clock env n\<close> is the handler's \<open>n\<close>-th reading of the clock (\<^verbatim>\<open>new Date()\<close>,
  \<^verbatim>\<open>Date.now()\<close>); \<open>random env\<close> is the value of \<^verbatim>\<open>Math.random()\<close>; \<open>bcrypt_hash env pw\<close> is
  \<^verbatim>\<open>bcrypt.hash(pw, 10)\<close> with the salt of this call and \<open>bcrypt_compare env pw h\<close> is
  \<^verbatim>\<open>bcrypt.compare(pw, h)\<close>; \<open>jwt_sign env payload secret expiresIn\<close> is \<^verbatim>\<open>jwt.sign\<close>;
  \<open>days_back env t n\<close> is the instant of the \<^verbatim>\<open>Date\<close> that \<^verbatim>\<open>setDate(getDate() - n)\<close> makes of
  the \<^verbatim>\<open>Date\<close> of instant \<open>t\<close>: the calendar date moved back by \<open>n\<close> days in the time zone
  of the process, the time of day kept; \<open>None\<close> is an Invalid Date. \<open>date_gte env d since\<close> is
  the store's comparison \<^verbatim>\<open>Op.gte\<close> of a date column \<open>d\<close> with the \<^verbatim>\<open>Date\<close> \<open>since\<close>.
\<close>

record env =
  clock :: "nat \<Rightarrow> int"
  throws :: "call \<Rightarrow> bool"
  random :: real
  bcrypt_hash :: "string \<Rightarrow> string"
  bcrypt_compare :: "string \<Rightarrow> string \<Rightarrow> bool"
  jwt_sign :: "payload \<Rightarrow> string option \<Rightarrow> string \<Rightarrow> string"
  JWT_SECRET :: "string option"
  JWT_EXPIRES_IN :: "string option"
  SMTP_USER :: "string option"
  days_back :: "int \<Rightarrow> int \<Rightarrow> int option"
  date_gte :: "int \<Rightarrow> int option \<Rightarrow> bool"

section \<open>Responses\<close>

text \<open>
  A response is its status and the fields of its JSON body; a response sent without
  \<^verbatim>\<open>res.status\<close> has status 200. \<open>reply st msg\<close> is \<^verbatim>\<open>res.status(st).json({ message: msg })\<close>.
\<close>

record point =
  pt_date :: int
  pt_value :: int

record series =
  s_users :: "point list"
  s_sales :: "point list"
  s_conversions :: "point list"

record response =
  r_status :: nat
  r_message :: "string option"
  r_userId :: "nat option"
  r_token :: "string option"
  r_user :: "payload option"
  r_body_status :: "string option"
  r_data :: "series option"

definition reply :: "nat \<Rightarrow> string \<Rightarrow> response" where
  "reply st msg =
     \<lparr>r_status = st, r_message = Some msg, r_userId = None, r_token = None,
      r_user = None, r_body_status = None, r_data = None\<rparr>"

section \<open>Store operations\<close>

text \<open>
  \<^verbatim>\<open>findOne\<close> and \<^verbatim>\<open>findByPk\<close> return the first row that matches; \<^verbatim>\<open>destroy\<close> deletes the rows
  of the instance's key.
\<close>

definition User_findOne :: "string \<Rightarrow> world \<Rightarrow> user option" where
  "User_findOne email w = find (\<lambda>u. u_email u = email) (users w)"

definition PendingUser_findByPk :: "string \<Rightarrow> world \<Rightarrow> pending_user option" where
  "PendingUser_findByPk email w = find (\<lambda>p. p_email p = email) (pendings w)"

definition PendingUser_destroy :: "pending_user \<Rightarrow> world \<Rightarrow> world" where
  "PendingUser_destroy pending w =
     w\<lparr>pendings := filter (\<lambda>q. p_email q \<noteq> p_email pending) (pendings w)\<rparr>"

text \<open>
  \<^verbatim>\<open>User.create\<close> inserts the row built from the given fields under a fresh id; the unique
  email makes the insertion fail (\<open>None\<close>) when the email is taken.
\<close>

definition User_create :: "(nat \<Rightarrow> user) \<Rightarrow> world \<Rightarrow> (user \<times> world) option" where
  "User_create row w =
     (let user = row (next_id w) in
      if \<exists>x \<in> set (users w). u_email x = u_email user then None
      else Some (user, w\<lparr>users := users w @ [user], next_id := Suc (next_id w)\<rparr>))"

text \<open>
\<^verbatim>\<open>PendingUser.upsert\<close>: insert the row, or overwrite the row of the same key.
\<close>

definition PendingUser_upsert :: "pending_user \<Rightarrow> world \<Rightarrow> world" where
  "PendingUser_upsert row w =
     w\<lparr>pendings :=
        (if \<exists>q \<in> set (pendings w). p_email q = p_email row
         then map (\<lambda>q. if p_email q = p_email row then row else q) (pendings w)
         else pendings w @ [row])\<rparr>"

text \<open>
\<^verbatim>\<open>pending.save()\<close> and \<^verbatim>\<open>user.save()\<close> write the changed columns of the row of that key.
\<close>

definition PendingUser_save :: "pending_user \<Rightarrow> world \<Rightarrow> world" where
  "PendingUser_save pending w =
     w\<lparr>pendings :=
        map (\<lambda>q. if p_email q = p_email pending
                  then q\<lparr>p_otp := p_otp pending, p_expires := p_expires pending\<rparr> else q)
          (pendings w)\<rparr>"

definition User_save :: "user \<Rightarrow> world \<Rightarrow> world" where
  "User_save user w =
     w\<lparr>users :=
        map (\<lambda>x. if u_id x = u_id user
                  then x\<lparr>u_passwordHash := u_passwordHash user, u_otp := u_otp user,
                          u_otpExpires := u_otpExpires user\<rparr>
                  else x)
          (users w)\<rparr>"

text \<open>
\<^verbatim>\<open>transporter.sendMail\<close> hands a mail to the transport.
\<close>

definition sendMail :: "mail \<Rightarrow> world \<Rightarrow> world" where
  "sendMail m w = w\<lparr>outbox := outbox w @ [m]\<rparr>"

text \<open>
  \<^verbatim>\<open>Metric.findAll\<close> with the \<^verbatim>\<open>where\<close>, \<^verbatim>\<open>group\<close> and \<^verbatim>\<open>order\<close> of \<^verbatim>\<open>getTimeSeries\<close>: the rows
  that pass the filter, ordered by date, the rows of one date summed into one.
\<close>

fun group_sum :: "metric list \<Rightarrow> metric list" where
  "group_sum (x # y # zs) =
     (if m_date x = m_date y
      then group_sum
             (\<lparr>m_date = m_date x,
               m_totalUsers = m_totalUsers x + m_totalUsers y,
               m_totalSales = m_totalSales x + m_totalSales y,
               m_totalConversions = m_totalConversions x + m_totalConversions y\<rparr> # zs)
      else x # group_sum (y # zs))"
| "group_sum xs = xs"

definition Metric_findAll :: "(int \<Rightarrow> bool) \<Rightarrow> world \<Rightarrow> metric list" where
  "Metric_findAll keep w = group_sum (sort_key m_date (filter (\<lambda>m. keep (m_date m)) (metrics w)))"

section \<open>The authentication controller\<close>

text \<open>
  A body field is absent (\<open>None\<close>) or a string; \<^verbatim>\<open>!x\<close> holds of an absent field and of
  the empty string.
\<close>

subsection \<open>\<^verbatim>\<open>genOTP\<close>\<close>

text \<open>
  \<^verbatim>\<open>Math.floor(100000 + Math.random() * 900000).toString()\<close>; \<open>decimal\<close> is \<^verbatim>\<open>toString\<close> on a
  natural number.
\<close>

fun decimal :: "nat \<Rightarrow> string" where
  "decimal n =
     (if n < 10 then [''0123456789'' ! n]
      else decimal (n div 10) @ [''0123456789'' ! (n mod 10)])"

declare decimal.simps [simp del]

definition genOTP :: "env \<Rightarrow> string" where
  "genOTP env = decimal (nat \<lfloor>100000 + random env * 900000\<rfloor>)"

subsection \<open>\<^verbatim>\<open>register\<close>\<close>

record register_body =
  rb_username :: "string option"
  rb_name :: "string option"
  rb_email :: "string option"
  rb_password :: "string option"
  rb_phone :: "string option"
  rb_role :: "string option"

definition register :: "env \<Rightarrow> register_body \<Rightarrow> world \<Rightarrow> response \<times> world" where
  "register env body w =
     (let role = (case rb_role body of None \<Rightarrow> ''staff'' | Some r \<Rightarrow> r) in
      case (rb_username body, rb_email body, rb_password body) of
        (Some username, Some email, Some password) \<Rightarrow>
          if username = [] \<or> email = [] \<or> password = []
          then (reply 400 ''Missing required fields'', w)
          else if throws env User_findOne_call
          then (reply 500 ''Server error during registration'', w)
          else
            (case User_findOne email w of
               Some existing \<Rightarrow> (reply 409 ''Email already registered'', w)
             | None \<Rightarrow>
                 if throws env Bcrypt_hash_call
                 then (reply 500 ''Server error during registration'', w)
                 else
                   let passwordHash = bcrypt_hash env password;
                       otp = genOTP env;
                       expires = clock env 0 + 15 * 60 * 1000
                   in
                     if throws env PendingUser_upsert_call
                     then (reply 500 ''Server error during registration'', w)
                     else
                       let w1 = PendingUser_upsert
                                  \<lparr>p_email = email, p_username = username, p_name = rb_name body,
                                   p_passwordHash = passwordHash, p_phone = rb_phone body,
                                   p_role = role, p_otp = otp, p_expires = expires\<rparr> w
                       in
                         if throws env SendMail_call
                         then (reply 500 ''Server error during registration'', w1)
                         else
                           (reply 200 ''OTP sent to your email'',
                            sendMail
                              \<lparr>mail_to = email, mail_from = SMTP_USER env,
                               mail_subject = ''Your Registration OTP'',
                               mail_text = ''Your MANIFEST Registration OTP is '' @ otp
                                 @ ''. It expires in 15 minutes.''\<rparr> w1))
      | _ \<Rightarrow> (reply 400 ''Missing required fields'', w))"

subsection \<open>\<^verbatim>\<open>verifyRegistration\<close>\<close>

text \<open>
  The fields that \<^verbatim>\<open>verifyRegistration\<close> hands to \<^verbatim>\<open>User.create\<close>, as a function of the id
  the store assigns.
\<close>

definition user_of_pending :: "pending_user \<Rightarrow> nat \<Rightarrow> user" where
  "user_of_pending pending i =
     \<lparr>u_id = i,
      u_username = p_username pending,
      u_name = p_name pending,
      u_email = p_email pending,
      u_passwordHash = p_passwordHash pending,
      u_phone = p_phone pending,
      u_role = p_role pending,
      u_otp = Some (p_otp pending),
      u_otpExpires = Some (p_expires pending)\<rparr>"

text \<open>
The UTC day of an instant, for \<^verbatim>\<open>toISOString().split('T')[0]\<close>.
\<close>

definition day_of :: "int \<Rightarrow> int" where
  "day_of t = t div 86400000"

text \<open>
  The metric step (the inner \<^verbatim>\<open>try\<close>): \<open>None\<close> when \<^verbatim>\<open>Metric.findOrCreate\<close> or
  \<^verbatim>\<open>metric.save\<close> throws. Today is the UTC day of the clock's second reading.
\<close>

definition metric_step :: "env \<Rightarrow> world \<Rightarrow> world option" where
  "metric_step env w =
     (let today = day_of (clock env 1) in
      if throws env Metric_findOrCreate_call then None
      else
        (case find (\<lambda>m. m_date m = today) (metrics w) of
           None \<Rightarrow>
             Some (w\<lparr>metrics := metrics w @
               [\<lparr>m_date = today, m_totalUsers = 1, m_totalSales = 0, m_totalConversions = 0\<rparr>]\<rparr>)
         | Some metric \<Rightarrow>
             if throws env Metric_save_call then None
             else Some (w\<lparr>metrics :=
               map (\<lambda>m. if m_date m = m_date metric
                         then m\<lparr>m_totalUsers := m_totalUsers metric + 1\<rparr> else m) (metrics w)\<rparr>)))"

text \<open>
  \<^verbatim>\<open>PendingUser.findByPk\<close> of an absent email resolves to null without a query.
\<close>

record verify_body =
  vb_email :: "string option"
  vb_otp :: "string option"

definition verifyRegistration :: "env \<Rightarrow> verify_body \<Rightarrow> world \<Rightarrow> response \<times> world" where
  "verifyRegistration env body w =
     (case vb_email body of
        None \<Rightarrow> (reply 400 ''No registration found for this email'', w)
      | Some email \<Rightarrow>
          if throws env PendingUser_findByPk_call
          then (reply 500 ''Server error verifying OTP'', w)
          else
            (case PendingUser_findByPk email w of
               None \<Rightarrow> (reply 400 ''No registration found for this email'', w)
             | Some pending \<Rightarrow>
                 if Some (p_otp pending) \<noteq> vb_otp body
                 then (reply 400 ''Invalid OTP'', w)
                 else if clock env 0 > p_expires pending
                 then (reply 400 ''OTP expired. Please request a new one.'', w)
                 else if throws env User_findOne_call
                 then (reply 500 ''Server error verifying OTP'', w)
                 else
                   (case User_findOne email w of
                      Some existing \<Rightarrow>
                        if throws env PendingUser_destroy_call
                        then (reply 500 ''Server error verifying OTP'', w)
                        else (reply 400 ''User already registered.'', PendingUser_destroy pending w)
                    | None \<Rightarrow>
                        if throws env User_create_call
                        then (reply 500 ''Server error verifying OTP'', w)
                        else
                          (case User_create (user_of_pending pending) w of
                             None \<Rightarrow> (reply 500 ''Server error verifying OTP'', w)
                           | Some (user, w1) \<Rightarrow>
                               let w2 = (case metric_step env w1 of None \<Rightarrow> w1 | Some w' \<Rightarrow> w') in
                               if throws env PendingUser_destroy_call
                               then (reply 500 ''Server error verifying OTP'', w2)
                               else
                                 ((reply 201 ''Registration successful'')\<lparr>r_userId := Some (u_id user)\<rparr>,
                                  PendingUser_destroy pending w2)))))"

subsection \<open>\<^verbatim>\<open>login\<close>\<close>

record login_body =
  lb_email :: "string option"
  lb_password :: "string option"

text \<open>
\<^verbatim>\<open>process.env.JWT_EXPIRES_IN || '7d'\<close>
\<close>

definition expiresIn :: "env \<Rightarrow> string" where
  "expiresIn env =
     (case JWT_EXPIRES_IN env of None \<Rightarrow> ''7d'' | Some s \<Rightarrow> if s = [] then ''7d'' else s)"

definition login :: "env \<Rightarrow> login_body \<Rightarrow> world \<Rightarrow> response" where
  "login env body w =
     (case (lb_email body, lb_password body) of
        (Some email, Some password) \<Rightarrow>
          if email = [] \<or> password = []
          then reply 400 ''Missing credentials''
          else if throws env User_findOne_call
          then reply 500 ''Server error during login''
          else
            (case User_findOne email w of
               None \<Rightarrow> reply 401 ''User not found''
             | Some user \<Rightarrow>
                 if throws env Bcrypt_compare_call
                 then reply 500 ''Server error during login''
                 else if \<not> bcrypt_compare env password (u_passwordHash user)
                 then reply 401 ''Invalid password''
                 else
                   let payload = \<lparr>pl_id = u_id user, pl_username = u_username user,
                                    pl_role = u_role user, pl_email = u_email user\<rparr>
                   in
                     if throws env Jwt_sign_call
                     then reply 500 ''Server error during login''
                     else
                       let token = jwt_sign env payload (JWT_SECRET env) (expiresIn env)
                       in \<lparr>r_status = 200, r_message = None, r_userId = None,
                           r_token = Some token, r_user = Some payload,
                           r_body_status = None, r_data = None\<rparr>)
      | _ \<Rightarrow> reply 400 ''Missing credentials'')"

subsection \<open>\<^verbatim>\<open>resendOtp\<close>\<close>

record resend_body =
  sb_email :: "string option"

definition resendOtp :: "env \<Rightarrow> resend_body \<Rightarrow> world \<Rightarrow> response \<times> world" where
  "resendOtp env body w =
     (case sb_email body of
        None \<Rightarrow> (reply 400 ''Email is required'', w)
      | Some email \<Rightarrow>
          if email = [] then (reply 400 ''Email is required'', w)
          else if throws env PendingUser_findByPk_call
          then (reply 500 ''Server error resending OTP'', w)
          else
            (case PendingUser_findByPk email w of
               None \<Rightarrow> (reply 400 ''No pending registration found for this email'', w)
             | Some pending \<Rightarrow>
                 let newOtp = genOTP env;
                     pending' = pending\<lparr>p_otp := newOtp,
                                         p_expires := clock env 0 + 15 * 60 * 1000\<rparr>
                 in
                   if throws env PendingUser_save_call
                   then (reply 500 ''Server error resending OTP'', w)
                   else
                     let w1 = PendingUser_save pending' w in
                       if throws env SendMail_call
                       then (reply 500 ''Server error resending OTP'', w1)
                       else
                         ((reply 200 ''OTP resent successfully''),
                          sendMail
                            \<lparr>mail_to = email, mail_from = SMTP_USER env,
                             mail_subject = ''Your New OTP'',
                             mail_text = ''Your new OTP is '' @ newOtp
                               @ ''. It expires in 15 minutes.''\<rparr> w1)))"

subsection \<open>\<^verbatim>\<open>verifyOtpReset\<close>\<close>

text \<open>
  In \<^verbatim>\<open>new Date() > user.otpExpires\<close> a null expiry converts to 0, the epoch.
\<close>

record reset_body =
  tb_email :: "string option"
  tb_otp :: "string option"
  tb_newPassword :: "string option"

definition verifyOtpReset :: "env \<Rightarrow> reset_body \<Rightarrow> world \<Rightarrow> response \<times> world" where
  "verifyOtpReset env body w =
     (case (tb_email body, tb_otp body, tb_newPassword body) of
        (Some email, Some otp, Some newPassword) \<Rightarrow>
          if email = [] \<or> otp = [] \<or> newPassword = []
          then (reply 400 ''Email, OTP and new password required'', w)
          else if throws env User_findOne_call
          then (reply 500 ''Server error verifying OTP reset'', w)
          else
            (case User_findOne email w of
               None \<Rightarrow> (reply 404 ''User not found'', w)
             | Some user \<Rightarrow>
                 if (case u_otp user of None \<Rightarrow> True | Some s \<Rightarrow> s = [])
                    \<or> u_otp user \<noteq> Some otp
                    \<or> clock env 0 > (case u_otpExpires user of None \<Rightarrow> 0 | Some t \<Rightarrow> t)
                 then (reply 400 ''Invalid or expired OTP'', w)
                 else if throws env Bcrypt_hash_call
                 then (reply 500 ''Server error verifying OTP reset'', w)
                 else
                   let user' = user\<lparr>u_passwordHash := bcrypt_hash env newPassword,
                                     u_otp := None, u_otpExpires := None\<rparr>
                   in
                     if throws env User_save_call
                     then (reply 500 ''Server error verifying OTP reset'', w)
                     else (reply 200 ''Password updated successfully'', User_save user' w))
      | _ \<Rightarrow> (reply 400 ''Email, OTP and new password required'', w))"

section \<open>The role gate\<close>

text \<open>
  A middleware either answers the request or hands it on with \<^verbatim>\<open>next()\<close>. The request
  carries the user that \<^verbatim>\<open>authMiddleware\<close> attached, if any. In \<^verbatim>\<open>middleware/auth.js\<close> the
  assignment to \<^verbatim>\<open>exports.requireRole\<close> stands in a second copy of the file's text, pasted
  into the \<^verbatim>\<open>catch\<close> block of the first \<^verbatim>\<open>authMiddleware\<close>; \<open>requireRole\<close> is the function
  that this assignment defines.
\<close>

record request =
  req_user :: "user option"

datatype outcome = Next | Respond response

definition requireRole :: "string list \<Rightarrow> request \<Rightarrow> outcome" where
  "requireRole roles req =
     (case req_user req of
        None \<Rightarrow> Respond (reply 403 ''Access denied'')
      | Some user \<Rightarrow>
          if u_role user \<notin> set roles then Respond (reply 403 ''Access denied'')
          else Next)"

section \<open>The time series of the metrics\<close>

text \<open>
  \<^verbatim>\<open>parseInt\<close> on a string, radix unspecified: leading white space is skipped, a sign is
  read, a prefix \<^verbatim>\<open>0x\<close> selects radix 16, and the longest prefix of digits is the value;
  without a digit the result is NaN (\<open>None\<close>).
\<close>

definition is_space :: "char \<Rightarrow> bool" where
  "is_space c = (let k = (of_char c :: nat) in (9 \<le> k \<and> k \<le> 13) \<or> k = 32)"

definition digit_of :: "nat \<Rightarrow> char \<Rightarrow> nat option" where
  "digit_of radix c =
     (let k = (of_char c :: nat);
          v = (if 48 \<le> k \<and> k \<le> 57 then Some (k - 48)
               else if 97 \<le> k \<and> k \<le> 122 then Some (k - 87)
               else if 65 \<le> k \<and> k \<le> 90 then Some (k - 55)
               else None)
      in case v of None \<Rightarrow> None | Some d \<Rightarrow> if d < radix then Some d else None)"

fun digits_value :: "nat \<Rightarrow> nat \<Rightarrow> string \<Rightarrow> nat" where
  "digits_value radix acc [] = acc"
| "digits_value radix acc (c # cs) =
     (case digit_of radix c of
        None \<Rightarrow> acc
      | Some d \<Rightarrow> digits_value radix (acc * radix + d) cs)"

definition parse_digits :: "nat \<Rightarrow> string \<Rightarrow> nat option" where
  "parse_digits radix s =
     (case s of
        [] \<Rightarrow> None
      | c # cs \<Rightarrow> (case digit_of radix c of None \<Rightarrow> None | Some d \<Rightarrow> Some (digits_value radix 0 s)))"

definition parse_unsigned :: "string \<Rightarrow> nat option" where
  "parse_unsigned s =
     (case s of
        c1 # c2 # rest \<Rightarrow>
          if c1 = CHR ''0'' \<and> (c2 = CHR ''x'' \<or> c2 = CHR ''X'') then parse_digits 16 rest
          else parse_digits 10 s
      | _ \<Rightarrow> parse_digits 10 s)"

definition parseInt :: "string \<Rightarrow> int option" where
  "parseInt s =
     (case dropWhile is_space s of
        [] \<Rightarrow> None
      | c # cs \<Rightarrow>
          if c = CHR ''-'' then map_option (\<lambda>n. - int n) (parse_unsigned cs)
          else if c = CHR ''+'' then map_option int (parse_unsigned cs)
          else map_option int (parse_unsigned (c # cs)))"

text \<open>
  The cutoff \<^verbatim>\<open>since\<close> is the \<^verbatim>\<open>Date\<close> of the clock's reading after
  \<^verbatim>\<open>since.setDate(since.getDate() - days)\<close>; \<^verbatim>\<open>String(period).replace('d', '')\<close> removes the
  first \<^verbatim>\<open>d\<close>. The number of days is the integer that \<^verbatim>\<open>parseInt\<close> reads; \<open>days_back\<close> is the
  Date arithmetic on the number JavaScript holds for it.
\<close>

record series_query =
  q_period :: "string option"

definition cutoff :: "env \<Rightarrow> series_query \<Rightarrow> int option" where
  "cutoff env query =
     (let period = (case q_period query of
                      None \<Rightarrow> ''30d''
                    | Some s \<Rightarrow> if s = [] then ''30d'' else s);
          days = (case parseInt (remove1 (CHR ''d'') period) of
                    None \<Rightarrow> 30
                  | Some n \<Rightarrow> if n = 0 then 30 else n)
      in days_back env (clock env 0) days)"

definition getTimeSeries :: "env \<Rightarrow> series_query \<Rightarrow> world \<Rightarrow> response" where
  "getTimeSeries env query w =
     (let since = cutoff env query in
      if throws env Metric_findAll_call then reply 500 ''Server error''
      else
        let results = Metric_findAll (\<lambda>d. date_gte env d since) w;
            series = \<lparr>s_users = map (\<lambda>r. \<lparr>pt_date = m_date r, pt_value = m_totalUsers r\<rparr>) results,
                      s_sales = map (\<lambda>r. \<lparr>pt_date = m_date r, pt_value = m_totalSales r\<rparr>) results,
                      s_conversions =
                        map (\<lambda>r. \<lparr>pt_date = m_date r, pt_value = m_totalConversions r\<rparr>) results\<rparr>
        in \<lparr>r_status = 200, r_message = None, r_userId = None, r_token = None, r_user = None,
            r_body_status = Some ''success'', r_data = Some series\<rparr>)"

section \<open>Vocabulary of the properties\<close>

text \<open>A body field is present when \<^verbatim>\<open>!x\<close> is false: it is given and not the empty string.\<close>

definition present :: "string option \<Rightarrow> bool" where
  "present x = (case x of None \<Rightarrow> False | Some s \<Rightarrow> s \<noteq> [])"

text \<open>The world after \<^verbatim>\<open>User.create\<close> has promoted a PendingUser.\<close>

definition created :: "pending_user \<Rightarrow> world \<Rightarrow> world" where
  "created pending w =
     w\<lparr>users := users w @ [user_of_pending pending (next_id w)], next_id := Suc (next_id w)\<rparr>"

text \<open>The world after the metric step, which keeps the world it started from when it throws.\<close>

definition after_metric :: "env \<Rightarrow> world \<Rightarrow> world" where
  "after_metric env w = (case metric_step env w of None \<Rightarrow> w | Some w' \<Rightarrow> w')"

text \<open>
  Every PendingUser row that the handlers write has a non-empty email and a non-empty OTP.
\<close>

definition pending_wf :: "world \<Rightarrow> bool" where
  "pending_wf w = (\<forall>p \<in> set (pendings w). p_email p \<noteq> [] \<and> p_otp p \<noteq> [])"

text \<open>The Metric rows whose date is on or after the cutoff of a time-series query.\<close>

definition since_cutoff :: "env \<Rightarrow> series_query \<Rightarrow> world \<Rightarrow> metric list" where
  "since_cutoff env query w =
     filter (\<lambda>m. date_gte env (m_date m) (cutoff env query)) (metrics w)"

subsection \<open>Example data\<close>

definition ex_env :: env where
  "ex_env =
     \<lparr>clock = (\<lambda>n. 1000), throws = (\<lambda>c. False), random = 1 / 2,
      bcrypt_hash = (\<lambda>pw. ''$2a$10$'' @ pw),
      bcrypt_compare = (\<lambda>pw h. h = ''$2a$10$'' @ pw),
      jwt_sign = (\<lambda>p secret expiresIn. ''jwt:'' @ pl_email p @ '':'' @ expiresIn),
      JWT_SECRET = Some ''secret'', JWT_EXPIRES_IN = None,
      SMTP_USER = Some ''noreply@x.com'',
      days_back = (\<lambda>t n. Some (t - n * 86400000)),
      date_gte = (\<lambda>d since. case since of None \<Rightarrow> False | Some t \<Rightarrow> t \<le> d * 86400000)\<rparr>"

definition ex_env_series :: env where
  "ex_env_series = ex_env\<lparr>clock := \<lambda>n. 32 * 86400000\<rparr>"

definition ex_pending :: pending_user where
  "ex_pending =
     \<lparr>p_email = ''a@x.com'', p_username = ''a'', p_name = None,
      p_passwordHash = ''$2a$10$p'', p_phone = None, p_role = ''staff'',
      p_otp = ''550000'', p_expires = 2000\<rparr>"

definition ex_world :: world where
  "ex_world = \<lparr>users = [], pendings = [ex_pending], metrics = [], next_id = 1, outbox = []\<rparr>"

definition ex_verify :: verify_body where
  "ex_verify = \<lparr>vb_email = Some ''a@x.com'', vb_otp = Some ''550000''\<rparr>"

definition ex_user :: user where
  "ex_user = user_of_pending ex_pending 1"

definition ex_world_verified :: world where
  "ex_world_verified =
     \<lparr>users = [ex_user], pendings = [],
      metrics = [\<lparr>m_date = 0, m_totalUsers = 1, m_totalSales = 0, m_totalConversions = 0\<rparr>],
      next_id = 2, outbox = []\<rparr>"

definition ex_reset :: reset_body where
  "ex_reset =
     \<lparr>tb_email = Some ''a@x.com'', tb_otp = Some ''550000'', tb_newPassword = Some ''q''\<rparr>"

definition ex_login :: login_body where
  "ex_login = \<lparr>lb_email = Some ''a@x.com'', lb_password = Some ''p''\<rparr>"

definition ex_payload :: payload where
  "ex_payload = \<lparr>pl_id = 1, pl_username = ''a'', pl_role = ''staff'', pl_email = ''a@x.com''\<rparr>"

definition ex_register :: register_body where
  "ex_register =
     \<lparr>rb_username = Some ''a'', rb_name = None, rb_email = Some ''a@x.com'',
      rb_password = Some ''p'', rb_phone = None, rb_role = None\<rparr>"

definition ex_world_metrics :: world where
  "ex_world_metrics =
     \<lparr>users = [], pendings = [],
      metrics =
        [\<lparr>m_date = 3, m_totalUsers = 5, m_totalSales = 7, m_totalConversions = 1\<rparr>,
         \<lparr>m_date = 1, m_totalUsers = 4, m_totalSales = 0, m_totalConversions = 0\<rparr>,
         \<lparr>m_date = 2, m_totalUsers = 2, m_totalSales = 9, m_totalConversions = 3\<rparr>],
      next_id = 1, outbox = []\<rparr>"

section \<open>Auxiliary facts\<close>

subsection \<open>Lists\<close>


lemma find_filter_neg: "find (\<lambda>p. f p = e) (filter (\<lambda>q. f q \<noteq> e) xs) = None"
  by (induction xs) auto

lemma find_Some_prop: "find P xs = Some x \<Longrightarrow> P x \<and> x \<in> set xs"
  by (induction xs) (auto split: if_splits)

lemma find_email_save:
  "find (\<lambda>u. u_email u = e) xs = Some user \<Longrightarrow>
   find (\<lambda>u. u_email u = e)
     (map (\<lambda>x. if u_id x = u_id user
                then x\<lparr>u_passwordHash := h, u_otp := ot, u_otpExpires := t\<rparr> else x) xs)
   = Some (user\<lparr>u_passwordHash := h, u_otp := ot, u_otpExpires := t\<rparr>)"
  by (induction xs) (auto split: if_splits)

subsection \<open>The steps of a verification\<close>

lemma metric_step_frame:
  "metric_step env w = Some w' \<Longrightarrow>
     users w' = users w \<and> pendings w' = pendings w \<and> next_id w' = next_id w \<and> outbox w' = outbox w"
  by (auto simp: metric_step_def Let_def split: if_splits option.splits)

lemma after_metric_frame:
  "users (after_metric env w) = users w \<and> pendings (after_metric env w) = pendings w
   \<and> next_id (after_metric env w) = next_id w \<and> outbox (after_metric env w) = outbox w"
  by (auto simp: after_metric_def dest: metric_step_frame split: option.splits)

lemma after_metric_throws:
  assumes "throws env Metric_findOrCreate_call
           \<or> (throws env Metric_save_call
               \<and> find (\<lambda>m. m_date m = day_of (clock env 1)) (metrics w) \<noteq> None)"
  shows "after_metric env w = w"
  using assms by (auto simp: after_metric_def metric_step_def Let_def split: option.splits)

lemma verifyRegistration_pass:
  assumes "vb_email body = Some email"
    and "PendingUser_findByPk email w = Some pending"
    and "vb_otp body = Some (p_otp pending)"
    and "clock env 0 \<le> p_expires pending"
    and "User_findOne email w = None"
    and "\<not> throws env PendingUser_findByPk_call"
    and "\<not> throws env User_findOne_call"
    and "\<not> throws env User_create_call"
    and "\<not> throws env PendingUser_destroy_call"
  shows "verifyRegistration env body w =
           ((reply 201 ''Registration successful'')\<lparr>r_userId := Some (next_id w)\<rparr>,
            PendingUser_destroy pending (after_metric env (created pending w)))"
proof -
  have pe: "p_email pending = email"
    using assms(2) by (auto simp: PendingUser_findByPk_def dest: find_Some_prop)
  have nouser: "\<forall>x \<in> set (users w). u_email x \<noteq> email"
    using assms(5) by (auto simp: User_findOne_def find_None_iff)
  have "User_create (user_of_pending pending) w =
          Some (user_of_pending pending (next_id w), created pending w)"
    using pe nouser by (simp add: User_create_def created_def user_of_pending_def Let_def)
  then show ?thesis
    using assms
    by (simp add: verifyRegistration_def after_metric_def user_of_pending_def)
qed


lemma PendingUser_destroy_gone:
  "PendingUser_findByPk (p_email pending) (PendingUser_destroy pending w) = None"
  by (simp add: PendingUser_findByPk_def PendingUser_destroy_def find_filter_neg)

lemma verifyRegistration_absent:
  assumes "PendingUser_findByPk email w = None" and "vb_email body = Some email"
    and "\<not> throws env PendingUser_findByPk_call"
  shows "verifyRegistration env body w = (reply 400 ''No registration found for this email'', w)"
  using assms by (simp add: verifyRegistration_def)


subsection \<open>The steps of a password reset\<close>

lemma User_findOne_save:
  assumes "User_findOne email w = Some user"
  shows "User_findOne email
           (User_save (user\<lparr>u_passwordHash := h, u_otp := ot, u_otpExpires := t\<rparr>) w)
         = Some (user\<lparr>u_passwordHash := h, u_otp := ot, u_otpExpires := t\<rparr>)"
  using assms by (simp add: User_findOne_def User_save_def find_email_save)

lemma verifyOtpReset_pass:
  assumes "tb_email body = Some email"
    and "tb_otp body = Some otp"
    and "tb_newPassword body = Some newPassword"
    and "email \<noteq> []" and "otp \<noteq> []" and "newPassword \<noteq> []"
    and "User_findOne email w = Some user"
    and "u_otp user = Some otp"
    and "u_otpExpires user = Some t"
    and "clock env 0 \<le> t"
    and "\<not> throws env User_findOne_call"
    and "\<not> throws env Bcrypt_hash_call"
    and "\<not> throws env User_save_call"
  shows "verifyOtpReset env body w =
           (reply 200 ''Password updated successfully'',
            User_save (user\<lparr>u_passwordHash := bcrypt_hash env newPassword,
                            u_otp := None, u_otpExpires := None\<rparr>) w)"
  using assms by (simp add: verifyOtpReset_def)

lemma verifyOtpReset_updates:
  assumes "tb_email body = Some email"
    and "tb_otp body = Some otp"
    and "tb_newPassword body = Some newPassword"
    and "email \<noteq> []" and "otp \<noteq> []" and "newPassword \<noteq> []"
    and "User_findOne email w = Some user"
    and "u_otp user = Some otp"
    and "u_otpExpires user = Some t"
    and "clock env 0 \<le> t"
    and "\<not> throws env User_findOne_call"
    and "\<not> throws env Bcrypt_hash_call"
    and "\<not> throws env User_save_call"
  shows "\<exists>user'.
           r_status (fst (verifyOtpReset env body w)) = 200
         \<and> User_findOne email (snd (verifyOtpReset env body w)) = Some user'
         \<and> u_passwordHash user' = bcrypt_hash env newPassword
         \<and> u_otp user' = None
         \<and> u_otpExpires user' = None
         \<and> u_id user' = u_id user
         \<and> u_username user' = u_username user
         \<and> u_name user' = u_name user
         \<and> u_email user' = u_email user
         \<and> u_phone user' = u_phone user
         \<and> u_role user' = u_role user
         \<and> length (users (snd (verifyOtpReset env body w))) = length (users w)
         \<and> (\<forall>i < length (users w). u_id (users w ! i) \<noteq> u_id user
               \<longrightarrow> users (snd (verifyOtpReset env body w)) ! i = users w ! i)
         \<and> pendings (snd (verifyOtpReset env body w)) = pendings w
         \<and> metrics (snd (verifyOtpReset env body w)) = metrics w
         \<and> next_id (snd (verifyOtpReset env body w)) = next_id w
         \<and> outbox (snd (verifyOtpReset env body w)) = outbox w"
proof -
  let ?user' = "user\<lparr>u_passwordHash := bcrypt_hash env newPassword,
                      u_otp := None, u_otpExpires := None\<rparr>"
  have run: "verifyOtpReset env body w =
      (reply 200 ''Password updated successfully'', User_save ?user' w)"
    using assms by (rule verifyOtpReset_pass)
  have found: "User_findOne email (User_save ?user' w) = Some ?user'"
    using assms(7) by (rule User_findOne_save)
  show ?thesis
    apply (rule exI [of _ ?user'])
    apply (simp only: run fst_conv snd_conv found)
    apply (simp add: reply_def User_save_def)
    done
qed

lemma verifyOtpReset_missing:
  assumes "\<not> (present (tb_email body) \<and> present (tb_otp body) \<and> present (tb_newPassword body))"
  shows "verifyOtpReset env body w = (reply 400 ''Email, OTP and new password required'', w)"
  using assms by (auto simp: verifyOtpReset_def present_def split: option.splits)

subsection \<open>The invariant of the PendingUser table\<close>

lemma decimal_nonempty: "decimal n \<noteq> []"
  by (subst decimal.simps) simp

lemma genOTP_nonempty: "genOTP env \<noteq> []"
  by (simp add: genOTP_def decimal_nonempty)

lemma pending_wf_initial:
  "pending_wf \<lparr>users = [], pendings = [], metrics = [], next_id = n, outbox = []\<rparr>"
  by (simp add: pending_wf_def)

lemma pending_wf_register:
  assumes "pending_wf w"
  shows "pending_wf (snd (register env body w))"
  using assms
  by (auto simp: register_def pending_wf_def PendingUser_upsert_def sendMail_def Let_def
      reply_def genOTP_nonempty split: option.splits if_splits)

lemma pending_wf_resendOtp:
  assumes "pending_wf w"
  shows "pending_wf (snd (resendOtp env body w))"
  using assms
  by (auto simp: resendOtp_def pending_wf_def PendingUser_save_def sendMail_def Let_def
      genOTP_nonempty split: option.splits if_splits)

lemma pending_wf_verifyRegistration:
  assumes "pending_wf w"
  shows "pending_wf (snd (verifyRegistration env body w))"
  using assms
  by (auto simp: verifyRegistration_def pending_wf_def PendingUser_destroy_def User_create_def
      Let_def dest!: metric_step_frame split: option.splits if_splits)

lemma pending_wf_verifyOtpReset:
  assumes "pending_wf w"
  shows "pending_wf (snd (verifyOtpReset env body w))"
  using assms
  by (auto simp: verifyOtpReset_def pending_wf_def User_save_def Let_def
      split: option.splits if_splits)

subsection \<open>Grouping and the cutoff\<close>

lemma group_sum_distinct: "distinct (map m_date xs) \<Longrightarrow> group_sum xs = xs"
  by (induction xs rule: group_sum.induct) auto

lemma distinct_dates_sort_key:
  "distinct (map m_date xs) \<Longrightarrow> distinct (map m_date (sort_key m_date xs))"
  by (induction xs) (auto simp: distinct_insort_key)

lemma Metric_findAll_distinct:
  assumes "distinct (map m_date (metrics w))"
  shows "Metric_findAll keep w = sort_key m_date (filter (\<lambda>m. keep (m_date m)) (metrics w))"
  using assms
  by (simp add: Metric_findAll_def group_sum_distinct distinct_dates_sort_key distinct_map_filter)

lemma group_sum_dates:
  "sorted (map m_date xs) \<Longrightarrow>
     sorted (map m_date (group_sum xs)) \<and> set (map m_date (group_sum xs)) = set (map m_date xs)
     \<and> distinct (map m_date (group_sum xs))"
  apply (induction xs rule: group_sum.induct)
  apply (auto)
  done

lemma cutoff_default: "cutoff env \<lparr>q_period = None\<rparr> = days_back env (clock env 0) 30"
  by (simp add: cutoff_def parseInt_def parse_unsigned_def parse_digits_def digit_of_def
      is_space_def)

lemma getTimeSeries_parallel:
  assumes "\<not> throws env Metric_findAll_call"
  shows "\<exists>s. r_data (getTimeSeries env query w) = Some s
           \<and> length (s_sales s) = length (s_users s)
           \<and> length (s_conversions s) = length (s_users s)
           \<and> map pt_date (s_sales s) = map pt_date (s_users s)
           \<and> map pt_date (s_conversions s) = map pt_date (s_users s)
           \<and> sorted (map pt_date (s_users s))
           \<and> distinct (map pt_date (s_users s))
           \<and> set (map pt_date (s_users s)) = m_date ` set (since_cutoff env query w)"
proof -
  let ?rows = "sort_key m_date (since_cutoff env query w)"
  have "sorted (map m_date ?rows)"
    by simp
  from group_sum_dates [OF this] show ?thesis
    using assms
    by (simp add: getTimeSeries_def Metric_findAll_def since_cutoff_def Let_def comp_def
        image_image)
qed

subsection \<open>The handlers on the example data\<close>

lemmas ex_defs =
  ex_env_def ex_pending_def ex_world_def ex_verify_def ex_user_def ex_world_verified_def

lemmas handler_defs =
  reply_def User_findOne_def PendingUser_findByPk_def PendingUser_destroy_def User_create_def
  user_of_pending_def metric_step_def day_of_def PendingUser_upsert_def sendMail_def
  PendingUser_save_def User_save_def genOTP_def expiresIn_def Let_def

lemma ex_verify_run:
  "verifyRegistration ex_env ex_verify ex_world =
     ((reply 201 ''Registration successful'')\<lparr>r_userId := Some 1\<rparr>, ex_world_verified)"
  by (simp add: verifyRegistration_def ex_defs handler_defs)

lemma ex_verify_again:
  "verifyRegistration ex_env ex_verify ex_world_verified =
     (reply 400 ''No registration found for this email'', ex_world_verified)"
  by (simp add: verifyRegistration_def ex_defs handler_defs)

lemma ex_reset_run:
  "verifyOtpReset ex_env ex_reset ex_world_verified =
     (reply 200 ''Password updated successfully'',
      ex_world_verified\<lparr>users :=
        [ex_user\<lparr>u_passwordHash := ''$2a$10$q'', u_otp := None, u_otpExpires := None\<rparr>]\<rparr>)"
  by (simp add: verifyOtpReset_def ex_reset_def ex_defs handler_defs)

lemma ex_login_run:
  "login ex_env ex_login ex_world_verified =
     \<lparr>r_status = 200, r_message = None, r_userId = None,
      r_token = Some ''jwt:a@x.com:7d'', r_user = Some ex_payload,
      r_body_status = None, r_data = None\<rparr>"
  by (simp add: login_def ex_login_def ex_payload_def ex_defs handler_defs)

lemma ex_series_run:
  "getTimeSeries ex_env_series \<lparr>q_period = None\<rparr> ex_world_metrics =
     \<lparr>r_status = 200, r_message = None, r_userId = None, r_token = None, r_user = None,
      r_body_status = Some ''success'',
      r_data = Some
        \<lparr>s_users = [\<lparr>pt_date = 2, pt_value = 2\<rparr>, \<lparr>pt_date = 3, pt_value = 5\<rparr>],
         s_sales = [\<lparr>pt_date = 2, pt_value = 9\<rparr>, \<lparr>pt_date = 3, pt_value = 7\<rparr>],
         s_conversions = [\<lparr>pt_date = 2, pt_value = 3\<rparr>, \<lparr>pt_date = 3, pt_value = 1\<rparr>]\<rparr>\<rparr>"
  by (simp add: getTimeSeries_def cutoff_default Metric_findAll_def ex_env_series_def
      ex_world_metrics_def ex_env_def)

section \<open>Verification of a registration\<close>

text \<open>
  C1. Let the request's email have a PendingUser whose stored OTP is the submitted one and
  whose expiry is not in the past, let no User have that email, and let the store calls of
  the handler not throw. Then \<^verbatim>\<open>verifyRegistration\<close> appends exactly one row to the User
  table, with username, name, email, passwordHash, phone and role copied from the
  PendingUser; the PendingUser table loses exactly the rows of that email; the response is
  201 and carries the id of the new row. A second verification with the same body, run on
  the resulting world, answers 400.
\<close>

theorem verifyRegistration_promotes:
  assumes "vb_email body = Some email"
    and "PendingUser_findByPk email w = Some pending"
    and "vb_otp body = Some (p_otp pending)"
    and "clock env 0 \<le> p_expires pending"
    and "User_findOne email w = None"
    and "\<not> throws env PendingUser_findByPk_call"
    and "\<not> throws env User_findOne_call"
    and "\<not> throws env User_create_call"
    and "\<not> throws env PendingUser_destroy_call"
    and "\<not> throws env' PendingUser_findByPk_call"
  shows "\<exists>user.
           users (snd (verifyRegistration env body w)) = users w @ [user]
         \<and> u_username user = p_username pending
         \<and> u_name user = p_name pending
         \<and> u_email user = p_email pending
         \<and> u_passwordHash user = p_passwordHash pending
         \<and> u_phone user = p_phone pending
         \<and> u_role user = p_role pending
         \<and> pendings (snd (verifyRegistration env body w))
             = filter (\<lambda>q. p_email q \<noteq> p_email pending) (pendings w)
         \<and> PendingUser_findByPk email (snd (verifyRegistration env body w)) = None
         \<and> r_status (fst (verifyRegistration env body w)) = 201
         \<and> r_userId (fst (verifyRegistration env body w)) = Some (u_id user)
         \<and> r_status (fst (verifyRegistration env' body (snd (verifyRegistration env body w)))) = 400"
proof -
  let ?w' = "PendingUser_destroy pending (after_metric env (created pending w))"
  have run: "verifyRegistration env body w =
      ((reply 201 ''Registration successful'')\<lparr>r_userId := Some (next_id w)\<rparr>, ?w')"
    using assms(1-9) by (rule verifyRegistration_pass)
  have pe: "p_email pending = email"
    using assms(2) by (auto simp: PendingUser_findByPk_def dest: find_Some_prop)
  have gone: "PendingUser_findByPk email ?w' = None"
    using PendingUser_destroy_gone [of pending] pe by simp
  have again: "verifyRegistration env' body ?w' =
      (reply 400 ''No registration found for this email'', ?w')"
    using gone assms(1) assms(10) by (rule verifyRegistration_absent)
  have us: "users ?w' = users w @ [user_of_pending pending (next_id w)]"
    by (simp add: PendingUser_destroy_def after_metric_frame created_def)
  have ps: "pendings ?w' = filter (\<lambda>q. p_email q \<noteq> p_email pending) (pendings w)"
    by (simp add: PendingUser_destroy_def after_metric_frame created_def)
  show ?thesis
    apply (rule exI [of _ "user_of_pending pending (next_id w)"])
    apply (simp only: run again fst_conv snd_conv us ps gone)
    apply (simp add: user_of_pending_def reply_def)
    done
qed

theorem verifyRegistration_promotes_witness:
  "users (snd (verifyRegistration ex_env ex_verify ex_world)) = [ex_user]
   \<and> pendings (snd (verifyRegistration ex_env ex_verify ex_world)) = []
   \<and> r_status (fst (verifyRegistration ex_env ex_verify ex_world)) = 201
   \<and> r_userId (fst (verifyRegistration ex_env ex_verify ex_world)) = Some 1
   \<and> r_status (fst (verifyRegistration ex_env ex_verify
        (snd (verifyRegistration ex_env ex_verify ex_world)))) = 400"
proof -
  have h1: "vb_email ex_verify = Some ''a@x.com''"
    by (simp add: ex_verify_def)
  have h2: "PendingUser_findByPk ''a@x.com'' ex_world = Some ex_pending"
    by (simp add: PendingUser_findByPk_def ex_world_def ex_pending_def)
  have h3: "vb_otp ex_verify = Some (p_otp ex_pending)"
    by (simp add: ex_verify_def ex_pending_def)
  have h4: "clock ex_env 0 \<le> p_expires ex_pending"
    by (simp add: ex_env_def ex_pending_def)
  have h5: "User_findOne ''a@x.com'' ex_world = None"
    by (simp add: User_findOne_def ex_world_def)
  have h6: "\<not> throws ex_env c" for c
    by (simp add: ex_env_def)
  from verifyRegistration_promotes [OF h1 h2 h3 h4 h5 h6 h6 h6 h6 h6]
  show ?thesis
    by (simp add: ex_verify_run ex_verify_again reply_def ex_world_verified_def)
qed

section \<open>Login with the right password\<close>

text \<open>
  C2. Let a login request carry a non-empty email and a non-empty password, let a User
  exist under that email, let \<^verbatim>\<open>bcrypt.compare\<close> accept the password against the stored
  passwordHash, and let the handler's calls not throw. Then the response has status 200
  and carries a token and a payload; the payload's id, username, role and email are those
  of the stored User, and the token is \<^verbatim>\<open>jwt.sign\<close> of exactly that payload under the
  configured secret.
\<close>

theorem login_issues_token:
  assumes "lb_email body = Some email"
    and "lb_password body = Some password"
    and "email \<noteq> []"
    and "password \<noteq> []"
    and "User_findOne email w = Some user"
    and "bcrypt_compare env password (u_passwordHash user)"
    and "\<not> throws env User_findOne_call"
    and "\<not> throws env Bcrypt_compare_call"
    and "\<not> throws env Jwt_sign_call"
  shows "\<exists>token payload.
           r_status (login env body w) = 200
         \<and> r_token (login env body w) = Some token
         \<and> r_user (login env body w) = Some payload
         \<and> pl_id payload = u_id user
         \<and> pl_username payload = u_username user
         \<and> pl_role payload = u_role user
         \<and> pl_email payload = u_email user
         \<and> token = jwt_sign env payload (JWT_SECRET env) (expiresIn env)"
  using assms by (simp add: login_def Let_def)

theorem login_issues_token_witness:
  "User_findOne ''a@x.com'' ex_world_verified = Some ex_user
   \<and> bcrypt_compare ex_env ''p'' (u_passwordHash ex_user)
   \<and> r_status (login ex_env ex_login ex_world_verified) = 200
   \<and> r_token (login ex_env ex_login ex_world_verified)
       = Some (jwt_sign ex_env ex_payload (JWT_SECRET ex_env) ''7d'')
   \<and> r_user (login ex_env ex_login ex_world_verified) = Some ex_payload
   \<and> pl_id ex_payload = u_id ex_user
   \<and> pl_username ex_payload = u_username ex_user
   \<and> pl_role ex_payload = u_role ex_user
   \<and> pl_email ex_payload = u_email ex_user"
proof -
  have h1: "lb_email ex_login = Some ''a@x.com''" "lb_password ex_login = Some ''p''"
    "''a@x.com'' \<noteq> []" "''p'' \<noteq> []"
    by (simp_all add: ex_login_def)
  have h2: "User_findOne ''a@x.com'' ex_world_verified = Some ex_user"
    by (simp add: User_findOne_def ex_world_verified_def ex_user_def user_of_pending_def
        ex_pending_def)
  have h3: "bcrypt_compare ex_env ''p'' (u_passwordHash ex_user)"
    by (simp add: ex_env_def ex_user_def user_of_pending_def ex_pending_def)
  have h4: "\<not> throws ex_env c" for c
    by (simp add: ex_env_def)
  from login_issues_token [OF h1 h2 h3 h4 h4 h4] h2 h3
  show ?thesis
    unfolding ex_login_run
    by (simp add: ex_payload_def ex_user_def user_of_pending_def ex_pending_def ex_env_def)
qed

section \<open>Expired one-time passwords\<close>

text \<open>
  C3. When the PendingUser found for the request's email has an expiry in the past,
  \<^verbatim>\<open>verifyRegistration\<close> fails whatever OTP is submitted and whichever calls throw: the
  status is 400 or 500, the response carries no user id, and the User table is left as it
  was.
\<close>

theorem verifyRegistration_expired:
  assumes "vb_email body = Some email"
    and "PendingUser_findByPk email w = Some pending"
    and "p_expires pending < clock env 0"
  shows "(r_status (fst (verifyRegistration env body w)) = 400
          \<or> r_status (fst (verifyRegistration env body w)) = 500)
       \<and> r_userId (fst (verifyRegistration env body w)) = None
       \<and> users (snd (verifyRegistration env body w)) = users w"
  using assms by (simp add: verifyRegistration_def reply_def)

theorem verifyRegistration_expired_witness:
  "r_status (fst (verifyRegistration (ex_env\<lparr>clock := \<lambda>n. 3000\<rparr>) ex_verify ex_world)) = 400
   \<and> r_userId (fst (verifyRegistration (ex_env\<lparr>clock := \<lambda>n. 3000\<rparr>) ex_verify ex_world)) = None
   \<and> users (snd (verifyRegistration (ex_env\<lparr>clock := \<lambda>n. 3000\<rparr>) ex_verify ex_world)) = []"
proof -
  have h1: "vb_email ex_verify = Some ''a@x.com''"
    by (simp add: ex_verify_def)
  have h2: "PendingUser_findByPk ''a@x.com'' ex_world = Some ex_pending"
    by (simp add: PendingUser_findByPk_def ex_world_def ex_pending_def)
  have h3: "p_expires ex_pending < clock (ex_env\<lparr>clock := \<lambda>n. 3000\<rparr>) 0"
    by (simp add: ex_pending_def)
  from verifyRegistration_expired [OF h1 h2 h3]
  show ?thesis
    by (simp add: verifyRegistration_def ex_defs handler_defs)
qed

section \<open>Registration with the email of a User\<close>

text \<open>
  C4, as the code has it. Let the email of a registration request belong to an existing
  User. Then \<^verbatim>\<open>register\<close> leaves the world as it was (no PendingUser row is written, no
  mail is sent), whichever calls throw. It answers 409 when username, email and password
  are all present and the User lookup does not throw; it answers 400 when one of the three
  is absent or empty.
\<close>

theorem register_existing_email:
  assumes "rb_email body = Some email"
    and "User_findOne email w = Some existing"
  shows "snd (register env body w) = w
       \<and> (present (rb_username body) \<and> present (rb_email body) \<and> present (rb_password body)
            \<and> \<not> throws env User_findOne_call
          \<longrightarrow> r_status (fst (register env body w)) = 409)
       \<and> (\<not> (present (rb_username body) \<and> present (rb_email body) \<and> present (rb_password body))
          \<longrightarrow> r_status (fst (register env body w)) = 400)"
  using assms
  by (auto simp: register_def reply_def present_def Let_def split: option.splits)

theorem register_existing_email_witness:
  "User_findOne ''a@x.com'' ex_world_verified = Some ex_user
   \<and> snd (register ex_env ex_register ex_world_verified) = ex_world_verified
   \<and> r_status (fst (register ex_env ex_register ex_world_verified)) = 409"
proof -
  have h1: "rb_email ex_register = Some ''a@x.com''"
    by (simp add: ex_register_def)
  have h2: "User_findOne ''a@x.com'' ex_world_verified = Some ex_user"
    by (simp add: User_findOne_def ex_world_verified_def ex_user_def user_of_pending_def
        ex_pending_def)
  have h3: "present (rb_username ex_register)" "present (rb_email ex_register)"
    "present (rb_password ex_register)" "\<not> throws ex_env User_findOne_call"
    by (simp_all add: present_def ex_register_def ex_env_def)
  from register_existing_email [OF h1 h2] h2 h3
  show ?thesis
    by simp
qed

theorem register_existing_email_counterexample:
  "User_findOne ''a@x.com'' ex_world_verified = Some ex_user
   \<and> rb_email (ex_register\<lparr>rb_username := None\<rparr>) = Some ''a@x.com''
   \<and> r_status (fst (register ex_env (ex_register\<lparr>rb_username := None\<rparr>) ex_world_verified)) = 400"
  by (simp add: register_def ex_register_def ex_defs handler_defs)

section \<open>Login with wrong credentials\<close>

text \<open>
  C5, as the code has it. Let a login request be one for which no User exists under the
  submitted email, or \<^verbatim>\<open>bcrypt.compare\<close> rejects the submitted password against the stored
  passwordHash. Then the response carries no token, whichever calls throw. Its status is
  401 when email and password are both present and the lookup and the comparison do not
  throw; it is 400 when the email or the password is absent or empty.
\<close>

theorem login_rejects:
  assumes "\<not> (\<exists>email password user.
              lb_email body = Some email \<and> lb_password body = Some password
            \<and> User_findOne email w = Some user
            \<and> bcrypt_compare env password (u_passwordHash user))"
  shows "r_token (login env body w) = None
       \<and> (present (lb_email body) \<and> present (lb_password body)
            \<and> \<not> throws env User_findOne_call \<and> \<not> throws env Bcrypt_compare_call
          \<longrightarrow> r_status (login env body w) = 401)
       \<and> (\<not> (present (lb_email body) \<and> present (lb_password body))
          \<longrightarrow> r_status (login env body w) = 400)"
  using assms
  by (auto simp: login_def reply_def present_def Let_def split: option.splits)

theorem login_rejects_witness:
  "User_findOne ''a@x.com'' ex_world_verified = Some ex_user
   \<and> \<not> bcrypt_compare ex_env ''wrong'' (u_passwordHash ex_user)
   \<and> r_token (login ex_env (ex_login\<lparr>lb_password := Some ''wrong''\<rparr>) ex_world_verified) = None
   \<and> r_status (login ex_env (ex_login\<lparr>lb_password := Some ''wrong''\<rparr>) ex_world_verified) = 401"
proof -
  have h1: "User_findOne ''a@x.com'' ex_world_verified = Some ex_user"
    by (simp add: User_findOne_def ex_world_verified_def ex_user_def user_of_pending_def
        ex_pending_def)
  have h2: "\<not> bcrypt_compare ex_env ''wrong'' (u_passwordHash ex_user)"
    by (simp add: ex_env_def ex_user_def user_of_pending_def ex_pending_def)
  have h3: "\<not> (\<exists>email password user.
              lb_email (ex_login\<lparr>lb_password := Some ''wrong''\<rparr>) = Some email
            \<and> lb_password (ex_login\<lparr>lb_password := Some ''wrong''\<rparr>) = Some password
            \<and> User_findOne email ex_world_verified = Some user
            \<and> bcrypt_compare ex_env password (u_passwordHash user))"
    using h1 h2 by (auto simp: ex_login_def)
  have h4: "present (lb_email (ex_login\<lparr>lb_password := Some ''wrong''\<rparr>))"
    "present (lb_password (ex_login\<lparr>lb_password := Some ''wrong''\<rparr>))"
    "\<not> throws ex_env User_findOne_call" "\<not> throws ex_env Bcrypt_compare_call"
    by (simp_all add: present_def ex_login_def ex_env_def)
  from login_rejects [OF h3] h4 h1 h2
  show ?thesis
    by simp
qed

theorem login_rejects_counterexample:
  "User_findOne ''nobody@x.com'' ex_world_verified = None
   \<and> r_status (login ex_env \<lparr>lb_email = Some ''nobody@x.com'', lb_password = None\<rparr>
        ex_world_verified) = 400
   \<and> User_findOne ''a@x.com'' ex_world_verified = Some ex_user
   \<and> \<not> bcrypt_compare ex_env '''' (u_passwordHash ex_user)
   \<and> r_status (login ex_env \<lparr>lb_email = Some ''a@x.com'', lb_password = Some ''''\<rparr>
        ex_world_verified) = 400"
  by (simp add: login_def ex_defs handler_defs)

section \<open>Requests at the role gate\<close>

text \<open>
  C6. The middleware built by \<^verbatim>\<open>requireRole(...roles)\<close> hands the request on when a user is
  attached whose role is among \<open>roles\<close>; in every other case (no user attached, or a role
  not among \<open>roles\<close>) it answers 403 and does not hand the request on.
\<close>

theorem requireRole_gate:
  "(\<forall>user. req_user req = Some user \<and> u_role user \<in> set roles
       \<longrightarrow> requireRole roles req = Next)
   \<and> (\<not> (\<exists>user. req_user req = Some user \<and> u_role user \<in> set roles)
       \<longrightarrow> requireRole roles req \<noteq> Next
           \<and> (\<exists>r. requireRole roles req = Respond r \<and> r_status r = 403))"
  by (auto simp: requireRole_def reply_def split: option.splits)

theorem requireRole_gate_witness:
  "requireRole [''admin'', ''staff''] \<lparr>req_user = Some ex_user\<rparr> = Next
   \<and> requireRole [''admin''] \<lparr>req_user = Some ex_user\<rparr>
       = Respond (reply 403 ''Access denied'')
   \<and> requireRole [''admin''] \<lparr>req_user = None\<rparr> = Respond (reply 403 ''Access denied'')"
proof -
  have h1: "u_role ex_user \<in> set [''admin'', ''staff'']" "u_role ex_user \<notin> set [''admin'']"
    by (simp_all add: ex_user_def user_of_pending_def ex_pending_def)
  from requireRole_gate [of "\<lparr>req_user = Some ex_user\<rparr>" "[''admin'', ''staff'']"]
    requireRole_gate [of "\<lparr>req_user = Some ex_user\<rparr>" "[''admin'']"]
    requireRole_gate [of "\<lparr>req_user = None\<rparr>" "[''admin'']"] h1
  show ?thesis
    by (auto simp: requireRole_def)
qed

section \<open>Failure of the metric step\<close>

text \<open>
  C7. Let a verification request pass the OTP, expiry and duplicate checks, with the
  handler's calls on the User and PendingUser tables not throwing, and let the metric step
  throw: either \<^verbatim>\<open>Metric.findOrCreate\<close> throws, or it finds today's row and \<^verbatim>\<open>metric.save\<close>
  throws. Then \<^verbatim>\<open>verifyRegistration\<close> still answers 201 with the id of the new User, the
  User is created, the PendingUser is deleted, and the Metric table is as it was.
\<close>

theorem verifyRegistration_metric_failure:
  assumes "vb_email body = Some email"
    and "PendingUser_findByPk email w = Some pending"
    and "vb_otp body = Some (p_otp pending)"
    and "clock env 0 \<le> p_expires pending"
    and "User_findOne email w = None"
    and "\<not> throws env PendingUser_findByPk_call"
    and "\<not> throws env User_findOne_call"
    and "\<not> throws env User_create_call"
    and "\<not> throws env PendingUser_destroy_call"
    and "throws env Metric_findOrCreate_call
         \<or> (throws env Metric_save_call
             \<and> find (\<lambda>m. m_date m = day_of (clock env 1)) (metrics w) \<noteq> None)"
  shows "r_status (fst (verifyRegistration env body w)) = 201
       \<and> r_userId (fst (verifyRegistration env body w)) = Some (next_id w)
       \<and> users (snd (verifyRegistration env body w))
           = users w @ [user_of_pending pending (next_id w)]
       \<and> PendingUser_findByPk email (snd (verifyRegistration env body w)) = None
       \<and> pendings (snd (verifyRegistration env body w))
           = filter (\<lambda>q. p_email q \<noteq> p_email pending) (pendings w)
       \<and> metrics (snd (verifyRegistration env body w)) = metrics w"
proof -
  have run: "verifyRegistration env body w =
      ((reply 201 ''Registration successful'')\<lparr>r_userId := Some (next_id w)\<rparr>,
       PendingUser_destroy pending (after_metric env (created pending w)))"
    using assms(1-9) by (rule verifyRegistration_pass)
  have "metrics (created pending w) = metrics w"
    by (simp add: created_def)
  with assms(10) have same: "after_metric env (created pending w) = created pending w"
    by (intro after_metric_throws) simp
  have pe: "p_email pending = email"
    using assms(2) by (auto simp: PendingUser_findByPk_def dest: find_Some_prop)
  have gone: "PendingUser_findByPk email (PendingUser_destroy pending (created pending w)) = None"
    using PendingUser_destroy_gone [of pending] pe by simp
  show ?thesis
    unfolding run same fst_conv snd_conv
    using gone by (simp add: reply_def PendingUser_destroy_def created_def)
qed

theorem verifyRegistration_metric_failure_witness:
  "throws (ex_env\<lparr>throws := \<lambda>c. c = Metric_findOrCreate_call\<rparr>) Metric_findOrCreate_call
   \<and> r_status (fst (verifyRegistration (ex_env\<lparr>throws := \<lambda>c. c = Metric_findOrCreate_call\<rparr>)
        ex_verify ex_world)) = 201
   \<and> r_userId (fst (verifyRegistration (ex_env\<lparr>throws := \<lambda>c. c = Metric_findOrCreate_call\<rparr>)
        ex_verify ex_world)) = Some 1
   \<and> users (snd (verifyRegistration (ex_env\<lparr>throws := \<lambda>c. c = Metric_findOrCreate_call\<rparr>)
        ex_verify ex_world)) = [ex_user]
   \<and> pendings (snd (verifyRegistration (ex_env\<lparr>throws := \<lambda>c. c = Metric_findOrCreate_call\<rparr>)
        ex_verify ex_world)) = []
   \<and> metrics (snd (verifyRegistration (ex_env\<lparr>throws := \<lambda>c. c = Metric_findOrCreate_call\<rparr>)
        ex_verify ex_world)) = []"
proof -
  let ?env = "ex_env\<lparr>throws := \<lambda>c. c = Metric_findOrCreate_call\<rparr>"
  have h1: "vb_email ex_verify = Some ''a@x.com''"
    by (simp add: ex_verify_def)
  have h2: "PendingUser_findByPk ''a@x.com'' ex_world = Some ex_pending"
    by (simp add: PendingUser_findByPk_def ex_world_def ex_pending_def)
  have h3: "vb_otp ex_verify = Some (p_otp ex_pending)"
    by (simp add: ex_verify_def ex_pending_def)
  have h4: "clock ?env 0 \<le> p_expires ex_pending"
    by (simp add: ex_env_def ex_pending_def)
  have h5: "User_findOne ''a@x.com'' ex_world = None"
    by (simp add: User_findOne_def ex_world_def)
  have h6: "\<not> throws ?env PendingUser_findByPk_call" "\<not> throws ?env User_findOne_call"
    "\<not> throws ?env User_create_call" "\<not> throws ?env PendingUser_destroy_call"
    by simp_all
  have h7: "throws ?env Metric_findOrCreate_call
         \<or> (throws ?env Metric_save_call
             \<and> find (\<lambda>m. m_date m = day_of (clock ?env 1)) (metrics ex_world) \<noteq> None)"
    by simp
  from verifyRegistration_metric_failure [OF h1 h2 h3 h4 h5 h6 h7]
  show ?thesis
    by (simp add: ex_world_def ex_user_def)
qed

section \<open>Password reset\<close>

text \<open>
  C8, as the code has it. Let a password-reset request carry a non-empty email, OTP and
  new password; let the User found under the email have a stored \<open>otp\<close> equal to the
  submitted one and an \<open>otpExpires\<close> that is not in the past, and let the handler's calls
  not throw. Then \<^verbatim>\<open>verifyOtpReset\<close> answers 200; the User found under the email afterwards
  has the hash of the new password as \<open>passwordHash\<close>, null \<open>otp\<close> and \<open>otpExpires\<close>, and its
  id, username, name, email, phone and role as before; the rows of another id and the
  other tables are as before. When the email, the OTP or the new password is absent or
  empty, \<^verbatim>\<open>verifyOtpReset\<close> answers 400 and leaves the world as it was, whatever the store
  holds and whichever calls throw.
\<close>

theorem verifyOtpReset_frame:
  "(tb_email body = Some email \<and> tb_otp body = Some otp
      \<and> tb_newPassword body = Some newPassword
      \<and> email \<noteq> [] \<and> otp \<noteq> [] \<and> newPassword \<noteq> []
      \<and> User_findOne email w = Some user
      \<and> u_otp user = Some otp
      \<and> u_otpExpires user = Some t
      \<and> clock env 0 \<le> t
      \<and> \<not> throws env User_findOne_call
      \<and> \<not> throws env Bcrypt_hash_call
      \<and> \<not> throws env User_save_call
    \<longrightarrow> (\<exists>user'.
           r_status (fst (verifyOtpReset env body w)) = 200
         \<and> User_findOne email (snd (verifyOtpReset env body w)) = Some user'
         \<and> u_passwordHash user' = bcrypt_hash env newPassword
         \<and> u_otp user' = None
         \<and> u_otpExpires user' = None
         \<and> u_id user' = u_id user
         \<and> u_username user' = u_username user
         \<and> u_name user' = u_name user
         \<and> u_email user' = u_email user
         \<and> u_phone user' = u_phone user
         \<and> u_role user' = u_role user
         \<and> length (users (snd (verifyOtpReset env body w))) = length (users w)
         \<and> (\<forall>i < length (users w). u_id (users w ! i) \<noteq> u_id user
               \<longrightarrow> users (snd (verifyOtpReset env body w)) ! i = users w ! i)
         \<and> pendings (snd (verifyOtpReset env body w)) = pendings w
         \<and> metrics (snd (verifyOtpReset env body w)) = metrics w
         \<and> next_id (snd (verifyOtpReset env body w)) = next_id w
         \<and> outbox (snd (verifyOtpReset env body w)) = outbox w))
   \<and> (\<not> (present (tb_email body) \<and> present (tb_otp body) \<and> present (tb_newPassword body))
    \<longrightarrow> verifyOtpReset env body w
          = (reply 400 ''Email, OTP and new password required'', w))"
proof (intro conjI impI)
  assume "tb_email body = Some email \<and> tb_otp body = Some otp
      \<and> tb_newPassword body = Some newPassword
      \<and> email \<noteq> [] \<and> otp \<noteq> [] \<and> newPassword \<noteq> []
      \<and> User_findOne email w = Some user
      \<and> u_otp user = Some otp
      \<and> u_otpExpires user = Some t
      \<and> clock env 0 \<le> t
      \<and> \<not> throws env User_findOne_call
      \<and> \<not> throws env Bcrypt_hash_call
      \<and> \<not> throws env User_save_call"
  then have "tb_email body = Some email" "tb_otp body = Some otp"
    "tb_newPassword body = Some newPassword" "email \<noteq> []" "otp \<noteq> []" "newPassword \<noteq> []"
    "User_findOne email w = Some user" "u_otp user = Some otp" "u_otpExpires user = Some t"
    "clock env 0 \<le> t" "\<not> throws env User_findOne_call" "\<not> throws env Bcrypt_hash_call"
    "\<not> throws env User_save_call"
    by simp_all
  then show "\<exists>user'.
           r_status (fst (verifyOtpReset env body w)) = 200
         \<and> User_findOne email (snd (verifyOtpReset env body w)) = Some user'
         \<and> u_passwordHash user' = bcrypt_hash env newPassword
         \<and> u_otp user' = None
         \<and> u_otpExpires user' = None
         \<and> u_id user' = u_id user
         \<and> u_username user' = u_username user
         \<and> u_name user' = u_name user
         \<and> u_email user' = u_email user
         \<and> u_phone user' = u_phone user
         \<and> u_role user' = u_role user
         \<and> length (users (snd (verifyOtpReset env body w))) = length (users w)
         \<and> (\<forall>i < length (users w). u_id (users w ! i) \<noteq> u_id user
               \<longrightarrow> users (snd (verifyOtpReset env body w)) ! i = users w ! i)
         \<and> pendings (snd (verifyOtpReset env body w)) = pendings w
         \<and> metrics (snd (verifyOtpReset env body w)) = metrics w
         \<and> next_id (snd (verifyOtpReset env body w)) = next_id w
         \<and> outbox (snd (verifyOtpReset env body w)) = outbox w"
    by (rule verifyOtpReset_updates)
next
  assume "\<not> (present (tb_email body) \<and> present (tb_otp body) \<and> present (tb_newPassword body))"
  then show "verifyOtpReset env body w
          = (reply 400 ''Email, OTP and new password required'', w)"
    by (rule verifyOtpReset_missing)
qed

theorem verifyOtpReset_frame_witness:
  "User_findOne ''a@x.com'' ex_world_verified = Some ex_user
   \<and> u_otp ex_user = Some ''550000''
   \<and> u_otpExpires ex_user = Some 2000
   \<and> r_status (fst (verifyOtpReset ex_env ex_reset ex_world_verified)) = 200
   \<and> users (snd (verifyOtpReset ex_env ex_reset ex_world_verified))
       = [ex_user\<lparr>u_passwordHash := bcrypt_hash ex_env ''q'', u_otp := None,
                   u_otpExpires := None\<rparr>]
   \<and> pendings (snd (verifyOtpReset ex_env ex_reset ex_world_verified)) = []
   \<and> next_id (snd (verifyOtpReset ex_env ex_reset ex_world_verified)) = 2
   \<and> \<not> present (tb_newPassword (ex_reset\<lparr>tb_newPassword := None\<rparr>))
   \<and> verifyOtpReset ex_env (ex_reset\<lparr>tb_newPassword := None\<rparr>) ex_world_verified
       = (reply 400 ''Email, OTP and new password required'', ex_world_verified)"
proof -
  have h1: "tb_email ex_reset = Some ''a@x.com''" "tb_otp ex_reset = Some ''550000''"
    "tb_newPassword ex_reset = Some ''q''" "''a@x.com'' \<noteq> []" "''550000'' \<noteq> []" "''q'' \<noteq> []"
    by (simp_all add: ex_reset_def)
  have h2: "User_findOne ''a@x.com'' ex_world_verified = Some ex_user"
    by (simp add: User_findOne_def ex_world_verified_def ex_user_def user_of_pending_def
        ex_pending_def)
  have h3: "u_otp ex_user = Some ''550000''" "u_otpExpires ex_user = Some 2000"
    "clock ex_env 0 \<le> 2000"
    by (simp_all add: ex_user_def user_of_pending_def ex_pending_def ex_env_def)
  have h4: "\<not> throws ex_env c" for c
    by (simp add: ex_env_def)
  have h5: "\<not> present (tb_newPassword (ex_reset\<lparr>tb_newPassword := None\<rparr>))"
    by (simp add: present_def)
  have again: "verifyOtpReset ex_env (ex_reset\<lparr>tb_newPassword := None\<rparr>) ex_world_verified
       = (reply 400 ''Email, OTP and new password required'', ex_world_verified)"
    using verifyOtpReset_frame [of "ex_reset\<lparr>tb_newPassword := None\<rparr>" "''a@x.com''" "''550000''"
        "''q''" ex_world_verified ex_user 2000 ex_env] h5
    by simp
  from verifyOtpReset_frame [of ex_reset "''a@x.com''" "''550000''" "''q''" ex_world_verified
      ex_user 2000 ex_env] h1 h2 h3 h4 h5 again
  show ?thesis
    unfolding ex_reset_run fst_conv snd_conv
    by (simp add: reply_def ex_world_verified_def ex_env_def)
qed

theorem verifyOtpReset_frame_counterexample:
  "User_findOne ''a@x.com'' ex_world_verified = Some ex_user
   \<and> u_otp ex_user = Some ''550000''
   \<and> u_otpExpires ex_user = Some 2000
   \<and> clock ex_env 0 \<le> 2000
   \<and> verifyOtpReset ex_env (ex_reset\<lparr>tb_newPassword := Some ''''\<rparr>) ex_world_verified
       = (reply 400 ''Email, OTP and new password required'', ex_world_verified)
   \<and> verifyOtpReset ex_env (ex_reset\<lparr>tb_newPassword := None\<rparr>) ex_world_verified
       = (reply 400 ''Email, OTP and new password required'', ex_world_verified)
   \<and> map u_otp (users ex_world_verified) = [Some ''550000'']
   \<and> map u_passwordHash (users ex_world_verified) = [''$2a$10$p'']
   \<and> bcrypt_hash ex_env '''' = ''$2a$10$''"
  by (simp add: verifyOtpReset_def ex_reset_def ex_defs handler_defs)

section \<open>Time series\<close>

text \<open>
  C9. Let the Metric table hold one row per day (the dates of its rows are distinct) and
  let \<^verbatim>\<open>Metric.findAll\<close> not throw. Then \<^verbatim>\<open>getTimeSeries\<close> answers 200 with three point lists
  \<open>users\<close>, \<open>sales\<close> and \<open>conversions\<close>: each holds one point per row whose date is on or
  after the cutoff, in ascending order of date, the point carrying the row's date and the
  row's total of that metric; so the three lists have the same length and the same dates
  position by position. Without a \<open>period\<close> the cutoff is the clock's reading moved back by
  30 calendar days.
\<close>

theorem getTimeSeries_points:
  assumes "\<not> throws env Metric_findAll_call"
    and "distinct (map m_date (metrics w))"
  shows "\<exists>s. r_status (getTimeSeries env query w) = 200
           \<and> r_data (getTimeSeries env query w) = Some s
           \<and> s_users s = map (\<lambda>m. \<lparr>pt_date = m_date m, pt_value = m_totalUsers m\<rparr>)
                            (sort_key m_date (since_cutoff env query w))
           \<and> s_sales s = map (\<lambda>m. \<lparr>pt_date = m_date m, pt_value = m_totalSales m\<rparr>)
                            (sort_key m_date (since_cutoff env query w))
           \<and> s_conversions s = map (\<lambda>m. \<lparr>pt_date = m_date m, pt_value = m_totalConversions m\<rparr>)
                            (sort_key m_date (since_cutoff env query w))
           \<and> length (s_users s) = length (since_cutoff env query w)
           \<and> length (s_sales s) = length (s_users s)
           \<and> length (s_conversions s) = length (s_users s)
           \<and> map pt_date (s_sales s) = map pt_date (s_users s)
           \<and> map pt_date (s_conversions s) = map pt_date (s_users s)
           \<and> sorted (map pt_date (s_users s))
           \<and> distinct (map pt_date (s_users s))
           \<and> (q_period query = None \<longrightarrow> cutoff env query = days_back env (clock env 0) 30)"
proof -
  let ?rows = "sort_key m_date (since_cutoff env query w)"
  have all: "Metric_findAll (\<lambda>d. date_gte env d (cutoff env query)) w = ?rows"
    using assms(2) by (simp add: Metric_findAll_distinct since_cutoff_def)
  have d: "distinct (map m_date ?rows)"
    using assms(2) by (simp add: distinct_dates_sort_key since_cutoff_def distinct_map_filter)
  have c: "q_period query = None \<longrightarrow> cutoff env query = days_back env (clock env 0) 30"
    using cutoff_default [of env] by (cases query) simp
  show ?thesis
    using assms(1) d c
    by (simp add: getTimeSeries_def all Let_def comp_def)
qed

theorem getTimeSeries_points_witness:
  "distinct (map m_date (metrics ex_world_metrics))
   \<and> cutoff ex_env_series \<lparr>q_period = None\<rparr> = Some (2 * 86400000)
   \<and> r_status (getTimeSeries ex_env_series \<lparr>q_period = None\<rparr> ex_world_metrics) = 200
   \<and> r_data (getTimeSeries ex_env_series \<lparr>q_period = None\<rparr> ex_world_metrics)
       = Some
           \<lparr>s_users = [\<lparr>pt_date = 2, pt_value = 2\<rparr>, \<lparr>pt_date = 3, pt_value = 5\<rparr>],
            s_sales = [\<lparr>pt_date = 2, pt_value = 9\<rparr>, \<lparr>pt_date = 3, pt_value = 7\<rparr>],
            s_conversions = [\<lparr>pt_date = 2, pt_value = 3\<rparr>, \<lparr>pt_date = 3, pt_value = 1\<rparr>]\<rparr>"
proof -
  have h1: "\<not> throws ex_env_series Metric_findAll_call"
    by (simp add: ex_env_series_def ex_env_def)
  have h2: "distinct (map m_date (metrics ex_world_metrics))"
    by (simp add: ex_world_metrics_def)
  have h3: "cutoff ex_env_series \<lparr>q_period = None\<rparr> = Some (2 * 86400000)"
    by (simp add: cutoff_default ex_env_series_def ex_env_def)
  from getTimeSeries_points [OF h1 h2, of "\<lparr>q_period = None\<rparr>"] h2 h3
  show ?thesis
    unfolding ex_series_run
    by simp
qed

section \<open>The registration OTP stays on the User\<close>



end
